theory Spec2Isabelle
  imports Main
begin

section \<open>Data model of the generation service (services/geminiService.ts, types.ts)\<close>

text \<open>
  The enums of types.ts. Each TypeScript enum member is a string constant; the
  function \<open>aspectRatioValue\<close> gives that string for an aspect ratio.
\<close>

datatype AspectRatio = SQUARE | STANDARD | LANDSCAPE | PORTRAIT | CUSTOM

fun aspectRatioValue :: "AspectRatio \<Rightarrow> string" where
  "aspectRatioValue SQUARE = ''1:1''"
| "aspectRatioValue STANDARD = ''4:3''"
| "aspectRatioValue LANDSCAPE = ''16:9''"
| "aspectRatioValue PORTRAIT = ''9:16''"
| "aspectRatioValue CUSTOM = ''CUSTOM''"

datatype ImageResolution = RES_1K | RES_2K | RES_4K

datatype VideoResolution = RES_720P | RES_1080P

text \<open>The model identifiers, lines 5 to 7 of geminiService.ts.\<close>

definition MODEL_NANO_BANANA :: string where
  "MODEL_NANO_BANANA = ''gemini-2.5-flash-image''"

definition MODEL_PRO_IMAGE :: string where
  "MODEL_PRO_IMAGE = ''gemini-3-pro-image-preview''"

definition MODEL_VEO_FAST :: string where
  "MODEL_VEO_FAST = ''veo-3.1-fast-generate-preview''"

text \<open>
  An uploaded image, \<^verbatim>\<open>{ base64: string; mimeType: string }\<close>, and the options
  object of \<^verbatim>\<open>generateImages\<close>. Optional fields (\<^verbatim>\<open>width?\<close>, \<^verbatim>\<open>contextImage?\<close>)
  are \<open>option\<close>s, \<open>None\<close> standing for \<^verbatim>\<open>undefined\<close>. The numbers \<^verbatim>\<open>width\<close> and
  \<^verbatim>\<open>height\<close> are modelled as integers: the model covers the integer-valued
  numbers of magnitude up to \<^verbatim>\<open>Number.MAX_SAFE_INTEGER\<close>, which JavaScript holds
  exactly and prints as their plain decimal digits; fractions, NaN and the
  rounded or exponent notation of larger numbers are outside it.
\<close>

record image =
  base64 :: string
  mimeType :: string

record GenerateImageOptions =
  prompt :: string
  aspectRatio :: AspectRatio
  width :: "int option"
  height :: "int option"
  resolution :: ImageResolution
  refImages :: "image list"
  contextImage :: "image option"
  isEditing :: "bool option"

text \<open>
  What is sent to the backend by \<^verbatim>\<open>client.models.generateContent\<close>: a part is
  either \<^verbatim>\<open>{ inlineData: { data, mimeType } }\<close> or \<^verbatim>\<open>{ text }\<close>; the config is
  \<^verbatim>\<open>{ imageConfig: { aspectRatio, imageSize? } }\<close>.
\<close>

datatype part = InlineData string string | TextPart string

record imageConfig =
  cfg_aspectRatio :: string
  imageSize :: "ImageResolution option"

record generateContentRequest =
  model :: string
  contents :: "part list"
  config :: imageConfig

section \<open>JavaScript conversions used by the service\<close>

text \<open>Number to string, as a template literal does it for an integer value.\<close>

definition digitChar :: "nat \<Rightarrow> char" where
  "digitChar d =
     (if d = 0 then CHR ''0'' else if d = 1 then CHR ''1''
      else if d = 2 then CHR ''2'' else if d = 3 then CHR ''3''
      else if d = 4 then CHR ''4'' else if d = 5 then CHR ''5''
      else if d = 6 then CHR ''6'' else if d = 7 then CHR ''7''
      else if d = 8 then CHR ''8'' else CHR ''9'')"

fun natToString :: "nat \<Rightarrow> string" where
  "natToString n =
     (if n < 10 then [digitChar n]
      else natToString (n div 10) @ [digitChar (n mod 10)])"

declare natToString.simps [simp del]

definition MAX_SAFE_INTEGER :: int where
  "MAX_SAFE_INTEGER = 9007199254740991"

definition numToString :: "int \<Rightarrow> string" where
  "numToString i =
     (if i < 0 then ''-'' @ natToString (nat (- i)) else natToString (nat i))"

text \<open>
  Truthiness of an optional number (\<^verbatim>\<open>undefined\<close> and \<open>0\<close> are falsy) and of an
  optional string (\<^verbatim>\<open>undefined\<close> and the empty string are falsy).
\<close>

definition truthyNum :: "int option \<Rightarrow> bool" where
  "truthyNum x = (case x of None \<Rightarrow> False | Some n \<Rightarrow> n \<noteq> 0)"

definition truthyStr :: "string option \<Rightarrow> bool" where
  "truthyStr x = (case x of None \<Rightarrow> False | Some s \<Rightarrow> s \<noteq> [])"

section \<open>Request assembly inside generateImages (lines 42 to 96)\<close>

text \<open>Line 42: \<^verbatim>\<open>const usePro = options.resolution !== ImageResolution.RES_1K\<close>.\<close>

definition usePro :: "GenerateImageOptions \<Rightarrow> bool" where
  "usePro options = (resolution options \<noteq> RES_1K)"

text \<open>Line 49: \<^verbatim>\<open>const modelName = usePro ? MODEL_PRO_IMAGE : MODEL_NANO_BANANA\<close>.\<close>

definition modelName :: "GenerateImageOptions \<Rightarrow> string" where
  "modelName options = (if usePro options then MODEL_PRO_IMAGE else MODEL_NANO_BANANA)"

text \<open>
  Lines 52 to 75: the array \<^verbatim>\<open>parts\<close> starts empty; \<^verbatim>\<open>forEach\<close> pushes one inline
  part per reference image, then the context image is pushed when present,
  then the text prompt. A push is an append at the end.
\<close>

definition push :: "'a list \<Rightarrow> 'a \<Rightarrow> 'a list" where
  "push xs x = xs @ [x]"

definition parts :: "GenerateImageOptions \<Rightarrow> part list" where
  "parts options =
     (let ps0 = foldl (\<lambda>ps img. push ps (InlineData (base64 img) (mimeType img)))
                  [] (refImages options);
          ps1 = (case contextImage options of
                   Some c \<Rightarrow> push ps0 (InlineData (base64 c) (mimeType c))
                 | None \<Rightarrow> ps0)
      in push ps1 (TextPart (prompt options)))"

text \<open>Lines 78 to 86: the aspect-ratio string.\<close>

definition ratioStr :: "GenerateImageOptions \<Rightarrow> string" where
  "ratioStr options =
     (if aspectRatio options = CUSTOM then
        (if truthyNum (width options) \<and> truthyNum (height options)
         then numToString (the (width options)) @ '':'' @ numToString (the (height options))
         else ''1:1'')
      else aspectRatioValue (aspectRatio options))"

text \<open>Lines 88 to 96: the config object, with \<^verbatim>\<open>imageSize\<close> set only for the Pro model.\<close>

definition imageConfigOf :: "GenerateImageOptions \<Rightarrow> imageConfig" where
  "imageConfigOf options =
     (let c = \<lparr>cfg_aspectRatio = ratioStr options, imageSize = None\<rparr>
      in if usePro options then c\<lparr>imageSize := Some (resolution options)\<rparr> else c)"

text \<open>Lines 99 to 103: the argument of \<^verbatim>\<open>client.models.generateContent\<close>.\<close>

definition request :: "GenerateImageOptions \<Rightarrow> generateContentRequest" where
  "request options =
     \<lparr>model = modelName options, contents = parts options, config = imageConfigOf options\<rparr>"

section \<open>Outcomes of awaited calls, and what the environment supplies\<close>

text \<open>
  A value thrown or carried by a rejected promise: an \<^verbatim>\<open>Error\<close> object created
  by this module, with its message, or a value that an external collaborator
  (the backend SDK, the host's key selector) rejects with.
\<close>

datatype thrown = Error string | Foreign string

text \<open>
  How an awaited promise ends: fulfilled with a value, rejected with a reason,
  or never settled.
\<close>

datatype 'a outcome = Fulfilled 'a | Rejected thrown | Pending

text \<open>
  The response of \<^verbatim>\<open>generateContent\<close>, as far as lines 106 to 109 read it:
  \<^verbatim>\<open>response.candidates?.[0]?.content?.parts\<close>, and of a part
  \<^verbatim>\<open>inlineData.data\<close> and \<^verbatim>\<open>inlineData.mimeType\<close>. Every field may be absent.
\<close>

record blob =
  blob_data :: "string option"
  blob_mimeType :: "string option"

record responsePart =
  inlineData :: "blob option"
  part_text :: "string option"

record content =
  content_parts :: "responsePart list option"

record candidate =
  candidate_content :: "content option"

record generateContentResponse =
  candidates :: "candidate list option"

text \<open>
  The video request and the long-running operation of the SDK, as far as
  \<^verbatim>\<open>generateVideo\<close> builds and reads them.
\<close>

datatype videoAspectRatio = Wide | Tall

fun videoAspectRatioValue :: "videoAspectRatio \<Rightarrow> string" where
  "videoAspectRatioValue Wide = ''16:9''"
| "videoAspectRatioValue Tall = ''9:16''"

record GenerateVideoOptions =
  video_prompt :: string
  inputImage :: "image option"
  video_aspectRatio :: videoAspectRatio

record videoConfig =
  numberOfVideos :: nat
  video_resolution :: VideoResolution
  videoConfig_aspectRatio :: videoAspectRatio

record videoImage =
  imageBytes :: string
  videoImage_mimeType :: string

record videoPayload =
  payload_model :: string
  payload_prompt :: string
  payload_config :: videoConfig
  payload_image :: "videoImage option"

record video =
  uri :: "string option"

record generatedVideo =
  generated_video :: "video option"

record generateVideosResponse =
  generatedVideos :: "generatedVideo list option"

record operation =
  operation_name :: string
  operation_done :: "bool option"
  operation_response :: "generateVideosResponse option"

text \<open>
  The host's key selector \<^verbatim>\<open>window.aistudio\<close>, when the host has one: how its two
  asynchronous calls end.
\<close>

record aistudioHost =
  hasSelectedApiKey :: "bool outcome"
  openSelectKey :: "unit outcome"

text \<open>
  Everything outside the module. \<open>aistudio\<close> is \<^verbatim>\<open>window.aistudio\<close>; \<open>API_KEY\<close> is
  what \<^verbatim>\<open>process.env.API_KEY\<close> evaluates to. \<open>generateContent env i req\<close> is how
  the backend ends the \<open>i\<close>-th of the concurrent calls, and \<open>arrival\<close> lists the
  calls in the order in which they settle (a call that is not listed never
  settles). \<open>generateVideos\<close> answers the job submission and
  \<open>getVideosOperation env n key\<close> the \<open>n\<close>-th refresh, asked with the handle \<open>key\<close>.
\<close>

record env =
  aistudio :: "aistudioHost option"
  API_KEY :: "string option"
  generateContent :: "nat \<Rightarrow> generateContentRequest \<Rightarrow> generateContentResponse outcome"
  arrival :: "nat list"
  generateVideos :: "videoPayload \<Rightarrow> operation outcome"
  getVideosOperation :: "nat \<Rightarrow> operation \<Rightarrow> operation outcome"

text \<open>
  What can be observed of a run, in order. \<open>EnsureApiKeyCalled\<close> and
  \<open>EnsureApiKeyReturned\<close> mark the entry into \<^verbatim>\<open>ensureApiKey\<close> and its completion;
  the other events are the calls the module makes: to the host's key selector,
  to the backend (with the index of the concurrent call and its argument), to
  \<^verbatim>\<open>console.error\<close>, and to \<^verbatim>\<open>setTimeout\<close> (with the delay in milliseconds).
\<close>

datatype event =
    EnsureApiKeyCalled
  | EnsureApiKeyReturned
  | HasSelectedApiKey
  | OpenSelectKey
  | GenerateContent nat generateContentRequest
  | ConsoleError string thrown
  | GenerateVideos videoPayload
  | SetTimeout nat
  | GetVideosOperation operation

section \<open>The credential gate (lines 11 to 19)\<close>

definition ensureApiKey :: "env \<Rightarrow> event list \<times> unit outcome" where
  "ensureApiKey e =
     (case aistudio e of
        None \<Rightarrow> ([EnsureApiKeyCalled, EnsureApiKeyReturned], Fulfilled ())
      | Some win_aistudio \<Rightarrow>
          (case hasSelectedApiKey win_aistudio of
             Rejected r \<Rightarrow> ([EnsureApiKeyCalled, HasSelectedApiKey], Rejected r)
           | Pending \<Rightarrow> ([EnsureApiKeyCalled, HasSelectedApiKey], Pending)
           | Fulfilled hasKey \<Rightarrow>
               (if \<not> hasKey then
                  (case openSelectKey win_aistudio of
                     Rejected r \<Rightarrow>
                       ([EnsureApiKeyCalled, HasSelectedApiKey, OpenSelectKey], Rejected r)
                   | Pending \<Rightarrow>
                       ([EnsureApiKeyCalled, HasSelectedApiKey, OpenSelectKey], Pending)
                   | Fulfilled u \<Rightarrow>
                       ([EnsureApiKeyCalled, HasSelectedApiKey, OpenSelectKey,
                         EnsureApiKeyReturned], Fulfilled ()))
                else ([EnsureApiKeyCalled, HasSelectedApiKey, EnsureApiKeyReturned],
                      Fulfilled ()))))"

section \<open>Extraction of the image from one response (lines 105 to 113)\<close>

text \<open>\<^verbatim>\<open>response.candidates?.[0]?.content?.parts\<close>: only index 0 is read.\<close>

definition firstCandidateParts :: "generateContentResponse \<Rightarrow> responsePart list option" where
  "firstCandidateParts response =
     (case candidates response of
        None \<Rightarrow> None
      | Some [] \<Rightarrow> None
      | Some (c # rest) \<Rightarrow>
          (case candidate_content c of
             None \<Rightarrow> None
           | Some ct \<Rightarrow> content_parts ct))"

text \<open>\<^verbatim>\<open>part.inlineData && part.inlineData.data\<close>.\<close>

definition hasInlineData :: "responsePart \<Rightarrow> bool" where
  "hasInlineData p =
     (case inlineData p of None \<Rightarrow> False | Some b \<Rightarrow> truthyStr (blob_data b))"

text \<open>
  The data URL of line 109,
  \<^verbatim>\<open>`data:${part.inlineData.mimeType || 'image/png'};base64,${part.inlineData.data}`\<close>.
\<close>

definition dataUrl :: "blob \<Rightarrow> string" where
  "dataUrl b =
     ''data:''
     @ (if truthyStr (blob_mimeType b) then the (blob_mimeType b) else ''image/png'')
     @ '';base64,'' @ the (blob_data b)"

text \<open>The \<^verbatim>\<open>for\<close> loop of lines 107 to 111: return at the first part that has data.\<close>

fun scanParts :: "responsePart list \<Rightarrow> string option" where
  "scanParts [] = None"
| "scanParts (p # ps) =
     (if hasInlineData p then Some (dataUrl (the (inlineData p))) else scanParts ps)"

definition noImageData :: thrown where
  "noImageData = Error ''No image data found in response''"

definition extractImage :: "generateContentResponse \<Rightarrow> thrown + string" where
  "extractImage response =
     (case firstCandidateParts response of
        Some ps \<Rightarrow>
          (case scanParts ps of
             Some url \<Rightarrow> Inr url
           | None \<Rightarrow> Inl noImageData)
      | None \<Rightarrow> Inl noImageData)"

section \<open>The batch of concurrent calls (lines 51 to 120)\<close>

text \<open>
  One of the \<open>count\<close> asynchronous closures, after its request was issued: the
  backend's answer goes through the extraction; a rejection of the backend is
  rethrown by the \<^verbatim>\<open>catch\<close> clause as it is.
\<close>

definition callResult :: "env \<Rightarrow> GenerateImageOptions \<Rightarrow> nat \<Rightarrow> string outcome" where
  "callResult e options i =
     (case generateContent e i (request options) of
        Fulfilled response \<Rightarrow>
          (case extractImage response of
             Inl err \<Rightarrow> Rejected err
           | Inr url \<Rightarrow> Fulfilled url)
      | Rejected err \<Rightarrow> Rejected err
      | Pending \<Rightarrow> Pending)"

text \<open>
  \<^verbatim>\<open>Promise.all\<close> over the closures' promises. \<open>slots\<close> holds one entry per promise,
  \<open>None\<close> until it is fulfilled. The promises settle in the order of the list:
  the first rejection rejects the whole with its reason; when every slot is
  filled the whole is fulfilled with the values in index order; otherwise it
  never settles.
\<close>

fun promiseAll :: "(nat \<Rightarrow> 'a outcome) \<Rightarrow> nat list \<Rightarrow> 'a option list \<Rightarrow> 'a list outcome" where
  "promiseAll res [] slots =
     (if list_all (\<lambda>s. s \<noteq> None) slots then Fulfilled (map the slots) else Pending)"
| "promiseAll res (i # rest) slots =
     (if i < length slots \<and> slots ! i = None then
        (case res i of
           Rejected err \<Rightarrow> Rejected err
         | Fulfilled v \<Rightarrow> promiseAll res rest (slots[i := Some v])
         | Pending \<Rightarrow> promiseAll res rest slots)
      else promiseAll res rest slots)"

text \<open>
  The \<^verbatim>\<open>console.error\<close> calls of the \<^verbatim>\<open>catch\<close> clauses (line 115), one for each
  closure that fails, in the order in which the closures settle; a closure
  settles once.
\<close>

fun completions :: "nat \<Rightarrow> (nat \<Rightarrow> 'a outcome) \<Rightarrow> nat list \<Rightarrow> nat list \<Rightarrow> event list" where
  "completions n res [] seen = []"
| "completions n res (i # rest) seen =
     (if i < n \<and> i \<notin> set seen then
        (case res i of
           Rejected err \<Rightarrow>
             ConsoleError ''Image generation failed'' err # completions n res rest (i # seen)
         | Fulfilled v \<Rightarrow> completions n res rest (i # seen)
         | Pending \<Rightarrow> completions n res rest seen)
      else completions n res rest seen)"

text \<open>
  \<^verbatim>\<open>generateImages\<close>: \<^verbatim>\<open>ensureApiKey\<close> when the Pro model is used, then \<open>count\<close> closures,
  each of which issues its backend call before any answer is handled, then
  \<^verbatim>\<open>Promise.all\<close>. The result is the trace of events and how the returned
  promise ends. The number \<open>count\<close> of closures is a natural number, the
  length of the array that \<^verbatim>\<open>Array.from\<close> builds. When \<^verbatim>\<open>ensureApiKey\<close> does not complete, the function ends before any
  call is made.
\<close>

definition generateImages ::
  "nat \<Rightarrow> GenerateImageOptions \<Rightarrow> env \<Rightarrow> event list \<times> string list outcome" where
  "generateImages count options e =
     (let gate = (if usePro options then ensureApiKey e else ([], Fulfilled ()))
      in case snd gate of
           Rejected err \<Rightarrow> (fst gate, Rejected err)
         | Pending \<Rightarrow> (fst gate, Pending)
         | Fulfilled u \<Rightarrow>
             (fst gate
                @ map (\<lambda>i. GenerateContent i (request options)) [0..<count]
                @ completions count (callResult e options) (arrival e) [],
              promiseAll (callResult e options) (arrival e) (replicate count None)))"

section \<open>The video driver (lines 130 to 174) and its caller\<close>

text \<open>Lines 134 to 151: the payload of \<^verbatim>\<open>client.models.generateVideos\<close>.\<close>

definition payload :: "GenerateVideoOptions \<Rightarrow> videoPayload" where
  "payload options =
     (let config = \<lparr>numberOfVideos = 1, video_resolution = RES_720P,
                    videoConfig_aspectRatio = video_aspectRatio options\<rparr>;
          p = \<lparr>payload_model = MODEL_VEO_FAST, payload_prompt = video_prompt options,
               payload_config = config, payload_image = None\<rparr>
      in case inputImage options of
           Some img \<Rightarrow>
             p\<lparr>payload_image :=
                 Some \<lparr>imageBytes = base64 img, videoImage_mimeType = mimeType img\<rparr>\<rparr>
         | None \<Rightarrow> p)"

text \<open>
  The options object that \<^verbatim>\<open>VideoGenerator.handleGenerate\<close> passes to
  \<^verbatim>\<open>generateVideo\<close>, from the component's state:
  \<^verbatim>\<open>prompt: prompt || 'Animate this image'\<close>, \<^verbatim>\<open>inputImage: inputImage || undefined\<close>.
\<close>

definition handleGenerate_options ::
  "string \<Rightarrow> image option \<Rightarrow> videoAspectRatio \<Rightarrow> GenerateVideoOptions" where
  "handleGenerate_options prompt_state inputImage_state aspectRatio_state =
     \<lparr>video_prompt = (if prompt_state \<noteq> [] then prompt_state else ''Animate this image''),
      inputImage = inputImage_state,
      video_aspectRatio = aspectRatio_state\<rparr>"

text \<open>
  The guard at the head of the sibling handler \<^verbatim>\<open>ImageGenerator.handleGenerate\<close>,
  \<^verbatim>\<open>if (!prompt && !contextImage) return;\<close>: whether that handler goes on to
  call the service. \<^verbatim>\<open>VideoGenerator.handleGenerate\<close> has no such guard.
\<close>

definition imageHandlerProceeds :: "string \<Rightarrow> image option \<Rightarrow> bool" where
  "imageHandlerProceeds prompt_state contextImage_state =
     (\<not> (prompt_state = [] \<and> contextImage_state = None))"

text \<open>\<^verbatim>\<open>operation.done\<close> as a condition: \<^verbatim>\<open>undefined\<close> and \<^verbatim>\<open>false\<close> are falsy.\<close>

definition isDone :: "operation \<Rightarrow> bool" where
  "isDone operation = (operation_done operation = Some True)"

text \<open>
  The loop of lines 156 to 159. \<open>n\<close> counts the refreshes made so far and \<open>tr\<close>
  is the trace so far. Each round sleeps 5000 ms and asks for a refreshed
  handle with the current handle as the key. The loop has no bound: on a job
  that never reports completion it does not return (\<open>None\<close>).
\<close>

partial_function (option) pollLoop ::
  "env \<Rightarrow> nat \<Rightarrow> operation \<Rightarrow> event list \<Rightarrow> (event list \<times> operation outcome) option" where
  "pollLoop e n operation tr =
     (if \<not> isDone operation then
        (case getVideosOperation e n operation of
           Fulfilled refreshed \<Rightarrow>
             pollLoop e (Suc n) refreshed (tr @ [SetTimeout 5000, GetVideosOperation operation])
         | Rejected err \<Rightarrow>
             Some (tr @ [SetTimeout 5000, GetVideosOperation operation], Rejected err)
         | Pending \<Rightarrow>
             Some (tr @ [SetTimeout 5000, GetVideosOperation operation], Pending))
      else Some (tr, Fulfilled operation))"

declare pollLoop.simps [code]

text \<open>Line 161: \<^verbatim>\<open>operation.response?.generatedVideos?.[0]?.video?.uri\<close>.\<close>

definition videoUri :: "operation \<Rightarrow> string option" where
  "videoUri operation =
     (case operation_response operation of
        None \<Rightarrow> None
      | Some r \<Rightarrow>
          (case generatedVideos r of
             None \<Rightarrow> None
           | Some [] \<Rightarrow> None
           | Some (g # rest) \<Rightarrow>
               (case generated_video g of
                  None \<Rightarrow> None
                | Some v \<Rightarrow> uri v)))"

text \<open>A template literal prints \<^verbatim>\<open>undefined\<close> as the word.\<close>

definition templateStr :: "string option \<Rightarrow> string" where
  "templateStr x = (case x of None \<Rightarrow> ''undefined'' | Some s \<Rightarrow> s)"

definition noVideoUri :: thrown where
  "noVideoUri = Error ''No video URI in response''"

text \<open>
  Lines 161 to 173, after the loop has ended with \<open>r\<close>: the \<^verbatim>\<open>catch\<close> clause logs
  and rethrows a failure; a completed handle without a URI is a failure.
\<close>

definition finishVideo :: "env \<Rightarrow> event list \<times> operation outcome \<Rightarrow> event list \<times> string outcome" where
  "finishVideo e r =
     (case snd r of
        Rejected err \<Rightarrow> (fst r @ [ConsoleError ''Video generation failed'' err], Rejected err)
      | Pending \<Rightarrow> (fst r, Pending)
      | Fulfilled operation \<Rightarrow>
          (if \<not> truthyStr (videoUri operation) then
             (fst r @ [ConsoleError ''Video generation failed'' noVideoUri], Rejected noVideoUri)
           else
             (fst r, Fulfilled (the (videoUri operation) @ ''&key='' @ templateStr (API_KEY e)))))"

text \<open>
  \<^verbatim>\<open>generateVideo\<close>: \<^verbatim>\<open>ensureApiKey\<close> (outside the \<^verbatim>\<open>try\<close>), the submission, the loop, the
  result. \<open>None\<close> means that the function polls forever.
\<close>

definition generateVideo ::
  "GenerateVideoOptions \<Rightarrow> env \<Rightarrow> (event list \<times> string outcome) option" where
  "generateVideo options e =
     (let gate = ensureApiKey e
      in case snd gate of
           Rejected err \<Rightarrow> Some (fst gate, Rejected err)
         | Pending \<Rightarrow> Some (fst gate, Pending)
         | Fulfilled u \<Rightarrow>
             (let tr = fst gate @ [GenerateVideos (payload options)]
              in case generateVideos e (payload options) of
                   Rejected err \<Rightarrow>
                     Some (tr @ [ConsoleError ''Video generation failed'' err], Rejected err)
                 | Pending \<Rightarrow> Some (tr, Pending)
                 | Fulfilled operation \<Rightarrow>
                     map_option (finishVideo e) (pollLoop e 0 operation tr)))"

section \<open>Notions used to state the properties, and example inputs\<close>

fun isRejected :: "'a outcome \<Rightarrow> bool" where
  "isRejected (Rejected err) = True"
| "isRejected (Fulfilled v) = False"
| "isRejected Pending = False"

fun isGenerateContent :: "event \<Rightarrow> bool" where
  "isGenerateContent (GenerateContent i r) = True"
| "isGenerateContent ev = False"

text \<open>A response whose only candidate has one part, carrying inline data.\<close>

definition inlineResponse :: "string \<Rightarrow> string option \<Rightarrow> generateContentResponse" where
  "inlineResponse d m =
     \<lparr>candidates = Some [\<lparr>candidate_content = Some \<lparr>content_parts =
        Some [\<lparr>inlineData = Some \<lparr>blob_data = Some d, blob_mimeType = m\<rparr>,
               part_text = None\<rparr>]\<rparr>\<rparr>]\<rparr>"

definition imgA :: image where
  "imgA = \<lparr>base64 = ''QQ=='', mimeType = ''image/png''\<rparr>"

definition imgB :: image where
  "imgB = \<lparr>base64 = ''Qg=='', mimeType = ''image/jpeg''\<rparr>"

definition imgC :: image where
  "imgC = \<lparr>base64 = ''Qw=='', mimeType = ''image/webp''\<rparr>"

definition exampleOptions :: GenerateImageOptions where
  "exampleOptions =
     \<lparr>prompt = ''p'', aspectRatio = CUSTOM, width = Some 1280, height = Some 720,
      resolution = RES_2K, refImages = [imgA, imgB], contextImage = Some imgC,
      isEditing = None\<rparr>"

definition job0 :: operation where
  "job0 = \<lparr>operation_name = ''operations/7'', operation_done = None,
           operation_response = None\<rparr>"

definition job1 :: operation where
  "job1 = \<lparr>operation_name = ''operations/7'', operation_done = Some False,
           operation_response = None\<rparr>"

definition job2 :: operation where
  "job2 = \<lparr>operation_name = ''operations/7'', operation_done = Some True,
           operation_response = Some \<lparr>generatedVideos =
             Some [\<lparr>generated_video = Some \<lparr>uri = Some ''https://host/v.mp4?alt=media''\<rparr>\<rparr>]\<rparr>\<rparr>"

text \<open>
  An environment: the host has a key selector and no key is selected yet; of
  the concurrent image calls the one with index 1 is rejected by the backend
  and the others return a PNG; the calls settle in the order 2, 1, 0; the
  video job is incomplete when submitted and after the first refresh, and
  complete after the second.
\<close>

definition exampleEnv :: env where
  "exampleEnv =
     \<lparr>aistudio = Some \<lparr>hasSelectedApiKey = Fulfilled False, openSelectKey = Fulfilled ()\<rparr>,
      API_KEY = Some ''KEY'',
      generateContent = (\<lambda>i req. if i = 1 then Rejected (Foreign ''503'')
                                   else Fulfilled (inlineResponse ''aGk='' (Some ''image/png''))),
      arrival = [2, 1, 0],
      generateVideos = (\<lambda>p. Fulfilled job0),
      getVideosOperation = (\<lambda>n key. if n = 0 \<and> key = job0 then Fulfilled job1
                                      else if n = 1 \<and> key = job1 then Fulfilled job2
                                      else Pending)\<rparr>"

text \<open>
  A response with two candidates: the first has only a text part, the second
  an inline PNG.
\<close>

definition twoCandidateResponse :: generateContentResponse where
  "twoCandidateResponse =
     \<lparr>candidates = Some
        [\<lparr>candidate_content = Some \<lparr>content_parts =
            Some [\<lparr>inlineData = None, part_text = Some ''no image''\<rparr>]\<rparr>\<rparr>,
         \<lparr>candidate_content = Some \<lparr>content_parts =
            Some [\<lparr>inlineData = Some \<lparr>blob_data = Some ''aGk='',
                                          blob_mimeType = Some ''image/png''\<rparr>,
                   part_text = None\<rparr>]\<rparr>\<rparr>]\<rparr>"

text \<open>The same environment with a backend that answers every call with that response.\<close>

definition textOnlyEnv :: env where
  "textOnlyEnv = exampleEnv\<lparr>generateContent := (\<lambda>i req. Fulfilled twoCandidateResponse)\<rparr>"

definition exampleVideoOptions :: GenerateVideoOptions where
  "exampleVideoOptions =
     \<lparr>video_prompt = ''a kite at dusk'', inputImage = Some imgA, video_aspectRatio = Tall\<rparr>"

section \<open>Properties of the request assembly\<close>

lemma foldl_push_map: "foldl (\<lambda>ps x. push ps (f x)) acc xs = acc @ map f xs"
  by (induction xs arbitrary: acc) (simp_all add: push_def)

lemma parts_eq:
  "parts options =
     map (\<lambda>img. InlineData (base64 img) (mimeType img)) (refImages options)
     @ (case contextImage options of
          None \<Rightarrow> []
        | Some c \<Rightarrow> [InlineData (base64 c) (mimeType c)])
     @ [TextPart (prompt options)]"
  unfolding parts_def Let_def foldl_push_map
  by (simp add: push_def split: option.split)

text \<open>
  Claim C3. The content parts that \<^verbatim>\<open>generateImages\<close> assembles are the reference
  images in their stored order, then the context image if there is one, then
  the text prompt; for the reference images A, B, the context image C and the
  prompt p they are exactly A, B, C, p. They are the \<^verbatim>\<open>contents\<close> of the request
  of every call.
\<close>

theorem parts_order:
  "parts options =
     map (\<lambda>img. InlineData (base64 img) (mimeType img)) (refImages options)
     @ (case contextImage options of
          None \<Rightarrow> []
        | Some c \<Rightarrow> [InlineData (base64 c) (mimeType c)])
     @ [TextPart (prompt options)]
   \<and> parts (options\<lparr>refImages := [A, B], contextImage := Some C, prompt := p\<rparr>) =
       [InlineData (base64 A) (mimeType A), InlineData (base64 B) (mimeType B),
        InlineData (base64 C) (mimeType C), TextPart p]
   \<and> contents (request options) = parts options"
  by (simp add: parts_eq request_def)

text \<open>
  Claim C4. With the aspect ratio CUSTOM and width and height both present and
  positive, the ratio string of the payload is the width, a colon and the
  height, printed as they are (1280 and 720 give 1280:720, not 16:9); with
  width or height missing it is 1:1; an enumerated ratio gives its own string.
  The numbers range over the integers that JavaScript holds exactly.
\<close>

theorem ratioStr_cases:
  "(aspectRatio options = CUSTOM \<and> width options = Some w \<and> height options = Some h
      \<and> 0 < w \<and> w \<le> MAX_SAFE_INTEGER \<and> 0 < h \<and> h \<le> MAX_SAFE_INTEGER
      \<longrightarrow> ratioStr options = numToString w @ '':'' @ numToString h)
   \<and> (aspectRatio options = CUSTOM \<and> (width options = None \<or> height options = None)
      \<longrightarrow> ratioStr options = ''1:1'')
   \<and> (aspectRatio options \<noteq> CUSTOM
      \<longrightarrow> ratioStr options = aspectRatioValue (aspectRatio options))
   \<and> ratioStr (options\<lparr>aspectRatio := CUSTOM, width := Some 1280, height := Some 720\<rparr>)
       = ''1280:720''
   \<and> cfg_aspectRatio (config (request options)) = ratioStr options"
  by (auto simp add: ratioStr_def truthyNum_def request_def imageConfigOf_def Let_def
      numToString_def natToString.simps digitChar_def)

theorem ratioStr_cases_witness:
  "ratioStr exampleOptions = ''1280:720''
   \<and> ratioStr (exampleOptions\<lparr>height := None\<rparr>) = ''1:1''
   \<and> ratioStr (exampleOptions\<lparr>aspectRatio := LANDSCAPE\<rparr>) = ''16:9''"
  using ratioStr_cases [of exampleOptions 1280 720]
    ratioStr_cases [of "exampleOptions\<lparr>height := None\<rparr>"]
    ratioStr_cases [of "exampleOptions\<lparr>aspectRatio := LANDSCAPE\<rparr>"]
  by (simp add: exampleOptions_def MAX_SAFE_INTEGER_def numToString_def natToString.simps
      digitChar_def)

text \<open>
  Claim C5. The model is a function of the resolution tier alone: the baseline
  tier 1K selects the fast model, the tiers 2K and 4K select the Pro model, and
  the two models differ. It is the \<^verbatim>\<open>model\<close> of the request of every call.
\<close>

theorem modelName_by_tier:
  "modelName options =
     (case resolution options of
        RES_1K \<Rightarrow> MODEL_NANO_BANANA
      | RES_2K \<Rightarrow> MODEL_PRO_IMAGE
      | RES_4K \<Rightarrow> MODEL_PRO_IMAGE)
   \<and> MODEL_NANO_BANANA \<noteq> MODEL_PRO_IMAGE
   \<and> model (request options) = modelName options"
  by (simp add: modelName_def usePro_def request_def MODEL_NANO_BANANA_def MODEL_PRO_IMAGE_def
      split: ImageResolution.split)

text \<open>
  Claim C8. The config of the payload has an \<^verbatim>\<open>imageSize\<close> exactly when the
  selected model is the Pro model, and then it is the requested resolution;
  the aspect-ratio field does not depend on the resolution tier.
\<close>

theorem imageSize_iff_pro:
  "(imageSize (config (request options)) \<noteq> None) = (modelName options = MODEL_PRO_IMAGE)
   \<and> config (request options) =
       \<lparr>cfg_aspectRatio = ratioStr options,
        imageSize = (if modelName options = MODEL_PRO_IMAGE then Some (resolution options)
                     else None)\<rparr>
   \<and> ratioStr (options\<lparr>resolution := r\<rparr>) = ratioStr options"
  by (simp add: modelName_def usePro_def request_def imageConfigOf_def Let_def ratioStr_def
      MODEL_NANO_BANANA_def MODEL_PRO_IMAGE_def)

section \<open>The prompt of a video request\<close>

text \<open>
  Where the video handler does what its comment says (\<^verbatim>\<open>Fallback prompt if just
  image is provided\<close>): an empty prompt with an input image gives the fallback
  prompt and the image in the payload, and a prompt that is not empty is
  submitted as it is. \<^verbatim>\<open>generateVideo\<close> itself copies the prompt of its options.
\<close>

lemma video_prompt_documented_cases:
  "payload_prompt (payload (handleGenerate_options [] (Some img) ar)) = ''Animate this image''
   \<and> payload_image (payload (handleGenerate_options [] (Some img) ar))
       = Some \<lparr>imageBytes = base64 img, videoImage_mimeType = mimeType img\<rparr>
   \<and> (p \<noteq> [] \<longrightarrow> payload_prompt (payload (handleGenerate_options p i ar)) = p)
   \<and> payload_prompt (payload options) = video_prompt options"
  by (simp add: payload_def handleGenerate_options_def Let_def split: option.split)

text \<open>
  Claim C9. The fallback prompt is for a request with an empty prompt and an
  input image; otherwise the caller's prompt is used as it is. The handler
  misses the case of an empty prompt with no input image: it submits a payload
  whose prompt is the fallback \<^verbatim>\<open>Animate this image\<close>, not the caller's empty
  prompt, and which holds no image. The sibling handler for images stops
  before the service on the same state.
\<close>

theorem video_prompt_empty_without_image:
  "payload_prompt (payload (handleGenerate_options [] None Wide)) = ''Animate this image''
   \<and> payload_prompt (payload (handleGenerate_options [] None Wide)) \<noteq> []
   \<and> payload_image (payload (handleGenerate_options [] None Wide)) = None
   \<and> \<not> imageHandlerProceeds [] None"
  by (simp add: payload_def handleGenerate_options_def Let_def imageHandlerProceeds_def)

section \<open>The batch fails as a whole\<close>

lemma promiseAll_first_rejection:
  assumes "res i = Rejected err" and "i < length slots" and "slots ! i = None"
    and "\<forall>j\<in>set pre. j < length slots \<longrightarrow> \<not> isRejected (res j)"
  shows "promiseAll res (pre @ i # post) slots = Rejected err"
  using assms
proof (induction pre arbitrary: slots)
  case Nil
  then show ?case by simp
next
  case (Cons j pre)
  show ?case
  proof (cases "j < length slots \<and> slots ! j = None")
    case False
    then have "promiseAll res ((j # pre) @ i # post) slots = promiseAll res (pre @ i # post) slots"
      by auto
    also have "\<dots> = Rejected err"
      using Cons.IH [of slots] Cons.prems by simp
    finally show ?thesis .
  next
    case True
    then have nr: "\<not> isRejected (res j)" using Cons.prems(4) by simp
    show ?thesis
    proof (cases "res j")
      case (Fulfilled v)
      have ji: "j \<noteq> i" using Fulfilled Cons.prems(1) by auto
      have "promiseAll res ((j # pre) @ i # post) slots
              = promiseAll res (pre @ i # post) (slots[j := Some v])"
        using True Fulfilled by simp
      also have "\<dots> = Rejected err"
        using Cons.IH [of "slots[j := Some v]"] Cons.prems ji by simp
      finally show ?thesis .
    next
      case (Rejected r)
      then show ?thesis using nr by simp
    next
      case Pending
      have "promiseAll res ((j # pre) @ i # post) slots = promiseAll res (pre @ i # post) slots"
        using True Pending by simp
      also have "\<dots> = Rejected err"
        using Cons.IH [of slots] Cons.prems by simp
      finally show ?thesis .
    qed
  qed
qed

text \<open>
  Claim C1, as stated: the batch fails with a batch error that carries the
  first failure. In the example the backend rejects call 1 with the value
  \<open>Foreign ''503''\<close>, and the promise returned by \<^verbatim>\<open>generateImages\<close> is rejected
  with that very value: the \<^verbatim>\<open>catch\<close> clause rethrows what it caught and
  \<^verbatim>\<open>Promise.all\<close> passes it on. The reason is the failing call's own failure,
  not an error of the module that wraps it.
\<close>

theorem batch_rejection_counterexample:
  "generateContent exampleEnv 1 (request exampleOptions) = Rejected (Foreign ''503'')
   \<and> callResult exampleEnv exampleOptions 1 = Rejected (Foreign ''503'')
   \<and> snd (generateImages 3 exampleOptions exampleEnv) = Rejected (Foreign ''503'')"
proof -
  have a: "generateContent exampleEnv 1 (request exampleOptions) = Rejected (Foreign ''503'')"
    by (simp add: exampleEnv_def)
  have b: "callResult exampleEnv exampleOptions 1 = Rejected (Foreign ''503'')"
    using a by (simp add: callResult_def)
  have c: "snd (generateImages 3 exampleOptions exampleEnv) = Rejected (Foreign ''503'')"
    by code_simp
  show ?thesis using a b c by simp
qed

text \<open>
  Claim C1, amended. When \<^verbatim>\<open>ensureApiKey\<close> lets the calls go out and, of the
  \<open>count\<close> concurrent calls, call \<open>i\<close> is the first to settle with a failure (no
  call that settles before it fails), the promise returned by
  \<^verbatim>\<open>generateImages\<close> is rejected with the failure of call \<open>i\<close> itself, unchanged
  and unwrapped: the reason \<open>err\<close> of the batch is the reason of that call. It
  is not fulfilled with any list, partial or full.
\<close>

theorem batch_fails_with_first_failure:
  assumes "usePro options \<longrightarrow> snd (ensureApiKey e) = Fulfilled ()"
    and "arrival e = pre @ i # post"
    and "i < count"
    and "callResult e options i = Rejected err"
    and "\<forall>j\<in>set pre. j < count \<longrightarrow> \<not> isRejected (callResult e options j)"
  shows "snd (generateImages count options e) = Rejected err
         \<and> (\<forall>urls. snd (generateImages count options e) \<noteq> Fulfilled urls)"
proof -
  have "promiseAll (callResult e options) (pre @ i # post) (replicate count None) = Rejected err"
    using assms(3-5) by (intro promiseAll_first_rejection) simp_all
  then have "snd (generateImages count options e) = Rejected err"
    using assms(1,2) by (simp add: generateImages_def Let_def)
  then show ?thesis by simp
qed

theorem batch_fails_with_first_failure_witness:
  "arrival exampleEnv = [2, 1, 0]
   \<and> callResult exampleEnv exampleOptions 2 = Fulfilled ''data:image/png;base64,aGk=''
   \<and> callResult exampleEnv exampleOptions 1 = Rejected (Foreign ''503'')
   \<and> snd (generateImages 3 exampleOptions exampleEnv) = Rejected (Foreign ''503'')"
proof -
  have gate: "usePro exampleOptions \<longrightarrow> snd (ensureApiKey exampleEnv) = Fulfilled ()"
    by (simp add: ensureApiKey_def exampleEnv_def)
  have arr: "arrival exampleEnv = [2] @ 1 # [0]"
    by (simp add: exampleEnv_def)
  have c2: "callResult exampleEnv exampleOptions 2 = Fulfilled ''data:image/png;base64,aGk=''"
    by (simp add: callResult_def exampleEnv_def extractImage_def inlineResponse_def
        firstCandidateParts_def hasInlineData_def truthyStr_def dataUrl_def)
  have c1: "callResult exampleEnv exampleOptions 1 = Rejected (Foreign ''503'')"
    by (simp add: callResult_def exampleEnv_def)
  have before: "\<forall>j\<in>set [2]. j < 3 \<longrightarrow> \<not> isRejected (callResult exampleEnv exampleOptions j)"
    using c2 by simp
  have "(1::nat) < 3" by simp
  from batch_fails_with_first_failure [OF gate arr this c1 before] arr c1 c2
  show ?thesis by simp
qed

section \<open>The credential gate runs once, before the calls\<close>

lemma ensureApiKey_called_once:
  "count_list (fst (ensureApiKey e)) EnsureApiKeyCalled = 1"
  by (simp add: ensureApiKey_def split: option.split outcome.split)

lemma ensureApiKey_no_calls:
  "ev \<in> set (fst (ensureApiKey e)) \<Longrightarrow> \<not> isGenerateContent ev"
  by (auto simp add: ensureApiKey_def split: option.splits outcome.splits if_splits)

lemma ensureApiKey_returned:
  "snd (ensureApiKey e) = Fulfilled u \<Longrightarrow> EnsureApiKeyReturned \<in> set (fst (ensureApiKey e))"
  by (auto simp add: ensureApiKey_def split: option.splits outcome.splits if_splits)

lemma ensureApiKey_called:
  "EnsureApiKeyCalled \<in> set (fst (ensureApiKey e))"
  by (auto simp add: ensureApiKey_def split: option.splits outcome.splits if_splits)

lemma completions_events:
  "ev \<in> set (completions n res arr seen) \<Longrightarrow> \<exists>m err. ev = ConsoleError m err"
  by (induction arr arbitrary: seen) (auto split: if_splits outcome.splits)

lemma completions_count: "count_list (completions n res arr seen) EnsureApiKeyCalled = 0"
  using completions_events [of EnsureApiKeyCalled n res arr seen]
  by (auto simp add: count_list_0_iff)

lemma completions_filter: "filter isGenerateContent (completions n res arr seen) = []"
  using completions_events [of _ n res arr seen] by (fastforce simp add: filter_empty_conv)

lemma calls_count:
  "count_list (map (\<lambda>i. GenerateContent i r) ns) EnsureApiKeyCalled = 0"
  by (induction ns) simp_all

lemma calls_filter:
  "filter isGenerateContent (map (\<lambda>i. GenerateContent i r) ns) = map (\<lambda>i. GenerateContent i r) ns"
  by (induction ns) simp_all

lemma gate_filter: "filter isGenerateContent (fst (ensureApiKey e)) = []"
  using ensureApiKey_no_calls [of _ e] by (auto simp add: filter_empty_conv)

lemma prefix_before_call:
  assumes "g @ rest = xs @ GenerateContent i r # ys"
    and "\<forall>ev\<in>set g. \<not> isGenerateContent ev"
  shows "set g \<subseteq> set xs"
proof -
  from assms(1) obtain us where
    "(g = xs @ us \<and> us @ rest = GenerateContent i r # ys)
     \<or> (g @ us = xs \<and> rest = us @ GenerateContent i r # ys)"
    by (auto simp add: append_eq_append_conv2)
  then show ?thesis
  proof
    assume a: "g = xs @ us \<and> us @ rest = GenerateContent i r # ys"
    show ?thesis
    proof (cases us)
      case Nil
      then show ?thesis using a by simp
    next
      case (Cons u us')
      then have "u = GenerateContent i r" using a by simp
      then have "GenerateContent i r \<in> set g" using a Cons by simp
      then show ?thesis using assms(2) by auto
    qed
  next
    assume "g @ us = xs \<and> rest = us @ GenerateContent i r # ys"
    then show ?thesis by auto
  qed
qed

lemma trace_pro_fulfilled:
  "usePro options \<Longrightarrow> snd (ensureApiKey e) = Fulfilled u \<Longrightarrow>
   fst (generateImages count options e) =
     fst (ensureApiKey e)
     @ (map (\<lambda>i. GenerateContent i (request options)) [0..<count]
        @ completions count (callResult e options) (arrival e) [])"
  by (simp add: generateImages_def Let_def)

lemma trace_pro_not_fulfilled:
  "usePro options \<Longrightarrow> \<forall>u. snd (ensureApiKey e) \<noteq> Fulfilled u \<Longrightarrow>
   fst (generateImages count options e) = fst (ensureApiKey e)"
  by (cases "snd (ensureApiKey e)") (simp_all add: generateImages_def Let_def)

lemma trace_baseline:
  "\<not> usePro options \<Longrightarrow>
   fst (generateImages count options e) =
     map (\<lambda>i. GenerateContent i (request options)) [0..<count]
     @ completions count (callResult e options) (arrival e) []"
  by (simp add: generateImages_def Let_def)

lemma pro_called_once:
  assumes "usePro options"
  shows "count_list (fst (generateImages count options e)) EnsureApiKeyCalled = 1"
proof (cases "\<exists>u. snd (ensureApiKey e) = Fulfilled u")
  case True
  then obtain u where "snd (ensureApiKey e) = Fulfilled u" by blast
  then show ?thesis
    using assms
    by (simp add: trace_pro_fulfilled ensureApiKey_called_once completions_count calls_count)
next
  case False
  then show ?thesis
    using assms by (simp add: trace_pro_not_fulfilled ensureApiKey_called_once)
qed

lemma pro_gate_before_call:
  assumes "usePro options"
    and "fst (generateImages count options e) = xs @ GenerateContent i r # ys"
  shows "EnsureApiKeyCalled \<in> set xs \<and> EnsureApiKeyReturned \<in> set xs"
proof (cases "\<exists>u. snd (ensureApiKey e) = Fulfilled u")
  case True
  then obtain u where u: "snd (ensureApiKey e) = Fulfilled u" by blast
  have "fst (ensureApiKey e)
         @ (map (\<lambda>i. GenerateContent i (request options)) [0..<count]
            @ completions count (callResult e options) (arrival e) [])
        = xs @ GenerateContent i r # ys"
    using assms u by (simp add: trace_pro_fulfilled)
  then have "set (fst (ensureApiKey e)) \<subseteq> set xs"
    by (rule prefix_before_call) (simp add: ensureApiKey_no_calls)
  then show ?thesis
    using ensureApiKey_returned [OF u] ensureApiKey_called [of e] by auto
next
  case False
  then have "fst (ensureApiKey e) = xs @ GenerateContent i r # ys"
    using assms by (simp add: trace_pro_not_fulfilled)
  then have "GenerateContent i r \<in> set (fst (ensureApiKey e))" by simp
  then show ?thesis using ensureApiKey_no_calls by fastforce
qed

lemma baseline_no_gate:
  assumes "\<not> usePro options"
  shows "EnsureApiKeyCalled \<notin> set (fst (generateImages count options e))
         \<and> HasSelectedApiKey \<notin> set (fst (generateImages count options e))
         \<and> OpenSelectKey \<notin> set (fst (generateImages count options e))"
  using assms completions_events [of _ count "callResult e options" "arrival e" "[]"]
  by (auto simp add: trace_baseline)

lemma calls_issued:
  assumes "usePro options \<longrightarrow> snd (ensureApiKey e) = Fulfilled ()"
  shows "filter isGenerateContent (fst (generateImages count options e))
           = map (\<lambda>i. GenerateContent i (request options)) [0..<count]"
proof (cases "usePro options")
  case True
  then show ?thesis
    using assms by (simp add: trace_pro_fulfilled gate_filter calls_filter completions_filter)
next
  case False
  then show ?thesis
    by (simp add: trace_baseline calls_filter completions_filter)
qed

text \<open>
  Claim C6. For a request that selects the Pro model, whatever \<open>count\<close> is, the
  trace of \<^verbatim>\<open>generateImages\<close> enters \<^verbatim>\<open>ensureApiKey\<close> exactly once, and every backend
  call in the trace comes after that entry and after the completion of it.
  For a baseline request \<^verbatim>\<open>ensureApiKey\<close> is not entered and the host's key selector is
  not asked. When the credential check is passed or not needed, exactly \<open>count\<close> backend
  calls are issued, all with the same request.
\<close>

theorem gate_once_before_calls:
  "(usePro options \<longrightarrow>
      count_list (fst (generateImages count options e)) EnsureApiKeyCalled = 1
      \<and> (\<forall>xs i r ys. fst (generateImages count options e) = xs @ GenerateContent i r # ys
            \<longrightarrow> EnsureApiKeyCalled \<in> set xs \<and> EnsureApiKeyReturned \<in> set xs))
   \<and> (\<not> usePro options \<longrightarrow>
        EnsureApiKeyCalled \<notin> set (fst (generateImages count options e))
        \<and> HasSelectedApiKey \<notin> set (fst (generateImages count options e))
        \<and> OpenSelectKey \<notin> set (fst (generateImages count options e)))
   \<and> ((usePro options \<longrightarrow> snd (ensureApiKey e) = Fulfilled ()) \<longrightarrow>
        filter isGenerateContent (fst (generateImages count options e))
          = map (\<lambda>i. GenerateContent i (request options)) [0..<count])"
  using pro_called_once pro_gate_before_call baseline_no_gate calls_issued
  by blast

theorem gate_once_before_calls_witness:
  "usePro exampleOptions
   \<and> fst (generateImages 3 exampleOptions exampleEnv) =
       [EnsureApiKeyCalled, HasSelectedApiKey, OpenSelectKey, EnsureApiKeyReturned]
       @ GenerateContent 0 (request exampleOptions)
       # [GenerateContent 1 (request exampleOptions), GenerateContent 2 (request exampleOptions),
          ConsoleError ''Image generation failed'' (Foreign ''503'')]
   \<and> count_list (fst (generateImages 3 exampleOptions exampleEnv)) EnsureApiKeyCalled = 1
   \<and> filter isGenerateContent (fst (generateImages 3 exampleOptions exampleEnv))
       = map (\<lambda>i. GenerateContent i (request exampleOptions)) [0..<3]
   \<and> \<not> usePro (exampleOptions\<lparr>resolution := RES_1K\<rparr>)
   \<and> EnsureApiKeyCalled
       \<notin> set (fst (generateImages 3 (exampleOptions\<lparr>resolution := RES_1K\<rparr>) exampleEnv))"
proof -
  have a: "usePro exampleOptions"
    by (simp add: usePro_def exampleOptions_def)
  have b: "snd (ensureApiKey exampleEnv) = Fulfilled ()"
    by (simp add: ensureApiKey_def exampleEnv_def)
  have c: "\<not> usePro (exampleOptions\<lparr>resolution := RES_1K\<rparr>)"
    by (simp add: usePro_def)
  have t: "fst (generateImages 3 exampleOptions exampleEnv) =
       [EnsureApiKeyCalled, HasSelectedApiKey, OpenSelectKey, EnsureApiKeyReturned]
       @ GenerateContent 0 (request exampleOptions)
       # [GenerateContent 1 (request exampleOptions), GenerateContent 2 (request exampleOptions),
          ConsoleError ''Image generation failed'' (Foreign ''503'')]"
    by code_simp
  show ?thesis
    using a b c t gate_once_before_calls [of exampleOptions 3 exampleEnv]
      gate_once_before_calls [of "exampleOptions\<lparr>resolution := RES_1K\<rparr>" 3 exampleEnv]
    by blast
qed

section \<open>Extraction of the image, and a batch that succeeds\<close>

lemma promiseAll_all_fulfilled:
  assumes "\<forall>i<length slots. res i = Fulfilled (f i)"
    and "\<forall>i<length slots. slots ! i = None \<or> slots ! i = Some (f i)"
    and "\<forall>i<length slots. slots ! i = None \<longrightarrow> i \<in> set arr"
  shows "promiseAll res arr slots = Fulfilled (map f [0..<length slots])"
  using assms
proof (induction arr arbitrary: slots)
  case Nil
  have full: "\<forall>i<length slots. slots ! i = Some (f i)"
  proof (intro allI impI)
    fix i assume i: "i < length slots"
    then have "slots ! i \<noteq> None" using Nil.prems(3) by auto
    moreover have "slots ! i = None \<or> slots ! i = Some (f i)"
      using Nil.prems(2) i by simp
    ultimately show "slots ! i = Some (f i)" by auto
  qed
  then have "list_all (\<lambda>s. s \<noteq> None) slots"
    by (simp add: list_all_length)
  moreover have "map the slots = map f [0..<length slots]"
    using full by (intro nth_equalityI) simp_all
  ultimately show ?case by simp
next
  case (Cons j arr)
  show ?case
  proof (cases "j < length slots \<and> slots ! j = None")
    case True
    then have rj: "res j = Fulfilled (f j)" using Cons.prems(1) by simp
    have "promiseAll res arr (slots[j := Some (f j)])
            = Fulfilled (map f [0..<length (slots[j := Some (f j)])])"
    proof (rule Cons.IH)
      show "\<forall>i<length (slots[j := Some (f j)]). res i = Fulfilled (f i)"
        using Cons.prems(1) by simp
      show "\<forall>i<length (slots[j := Some (f j)]).
              slots[j := Some (f j)] ! i = None \<or> slots[j := Some (f j)] ! i = Some (f i)"
        using Cons.prems(2) True by (auto simp add: nth_list_update)
      show "\<forall>i<length (slots[j := Some (f j)]). slots[j := Some (f j)] ! i = None \<longrightarrow> i \<in> set arr"
        using Cons.prems(3) True by (auto simp add: nth_list_update split: if_splits)
    qed
    then show ?thesis using True rj by simp
  next
    case False
    have "promiseAll res arr slots = Fulfilled (map f [0..<length slots])"
    proof (rule Cons.IH)
      show "\<forall>i<length slots. res i = Fulfilled (f i)" using Cons.prems(1) .
      show "\<forall>i<length slots. slots ! i = None \<or> slots ! i = Some (f i)" using Cons.prems(2) .
      show "\<forall>i<length slots. slots ! i = None \<longrightarrow> i \<in> set arr"
        using Cons.prems(3) False by auto
    qed
    then show ?thesis using False by auto
  qed
qed

lemma batch_all_fulfilled:
  assumes "usePro options \<longrightarrow> snd (ensureApiKey e) = Fulfilled ()"
    and "\<forall>i<count. i \<in> set (arrival e) \<and> callResult e options i = Fulfilled (f i)"
  shows "snd (generateImages count options e) = Fulfilled (map f [0..<count])"
proof -
  have "promiseAll (callResult e options) (arrival e) (replicate count None)
          = Fulfilled (map f [0..<length (replicate count (None :: string option))])"
    using assms(2) by (intro promiseAll_all_fulfilled) simp_all
  then show ?thesis using assms(1) by (simp add: generateImages_def Let_def)
qed

lemma scanParts_find:
  "scanParts ps =
     (case find hasInlineData ps of
        None \<Rightarrow> None
      | Some p \<Rightarrow> Some (dataUrl (the (inlineData p))))"
  by (induction ps) simp_all

lemma scanParts_none: "\<forall>p\<in>set ps. \<not> hasInlineData p \<Longrightarrow> scanParts ps = None"
  by (induction ps) simp_all

lemma extractImage_find:
  "extractImage response =
     (case firstCandidateParts response of
        None \<Rightarrow> Inl noImageData
      | Some ps \<Rightarrow>
          (case find hasInlineData ps of
             None \<Rightarrow> Inl noImageData
           | Some p \<Rightarrow> Inr (dataUrl (the (inlineData p)))))"
  by (simp add: extractImage_def scanParts_find split: option.split)

lemma extractImage_inlineResponse:
  "d \<noteq> [] \<Longrightarrow>
   extractImage (inlineResponse d (Some ''image/png'')) = Inr (''data:image/png;base64,'' @ d)"
  by (simp add: extractImage_def inlineResponse_def firstCandidateParts_def hasInlineData_def
      truthyStr_def dataUrl_def)

lemma callResult_no_data:
  "generateContent e i (request options) = Fulfilled response \<Longrightarrow>
   extractImage response = Inl noImageData \<Longrightarrow>
   callResult e options i = Rejected noImageData"
  by (simp add: callResult_def)

lemma single_image_batch:
  assumes "usePro options \<longrightarrow> snd (ensureApiKey e) = Fulfilled ()"
    and "0 \<in> set (arrival e)"
    and "generateContent e 0 (request options) = Fulfilled (inlineResponse d (Some ''image/png''))"
    and "d \<noteq> []"
  shows "snd (generateImages 1 options e) = Fulfilled [''data:image/png;base64,'' @ d]"
proof -
  have "callResult e options 0 = Fulfilled (''data:image/png;base64,'' @ d)"
    using assms(3,4) by (simp add: callResult_def extractImage_inlineResponse)
  then have "snd (generateImages 1 options e)
               = Fulfilled (map (\<lambda>i. ''data:image/png;base64,'' @ d) [0..<1])"
    using assms(1,2) by (intro batch_all_fulfilled) simp_all
  then show ?thesis by simp
qed

text \<open>
  Claim C7. The extraction returns the data URL of the first part, in order,
  that carries inline data, with the media type of the part or \<^verbatim>\<open>image/png\<close> when
  the part names none. A batch of one call whose response has one inline part
  of type \<^verbatim>\<open>image/png\<close> is fulfilled with exactly one reference, of that type.
  When no part carries inline data the extraction fails with the error
  \<^verbatim>\<open>No image data found in response\<close>, and so does the call.
\<close>

theorem extraction_first_inline_part:
  "extractImage response =
     (case firstCandidateParts response of
        None \<Rightarrow> Inl noImageData
      | Some ps \<Rightarrow>
          (case find hasInlineData ps of
             None \<Rightarrow> Inl noImageData
           | Some p \<Rightarrow> Inr (dataUrl (the (inlineData p)))))
   \<and> dataUrl \<lparr>blob_data = Some d, blob_mimeType = Some m\<rparr>
       = ''data:'' @ (if m = [] then ''image/png'' else m) @ '';base64,'' @ d
   \<and> dataUrl \<lparr>blob_data = Some d, blob_mimeType = None\<rparr> = ''data:image/png;base64,'' @ d
   \<and> ((usePro options \<longrightarrow> snd (ensureApiKey e) = Fulfilled ())
        \<and> 0 \<in> set (arrival e)
        \<and> generateContent e 0 (request options)
            = Fulfilled (inlineResponse d (Some ''image/png''))
        \<and> d \<noteq> []
       \<longrightarrow> snd (generateImages 1 options e) = Fulfilled [''data:image/png;base64,'' @ d])
   \<and> (firstCandidateParts response = Some ps \<and> (\<forall>p\<in>set ps. \<not> hasInlineData p)
       \<longrightarrow> extractImage response = Inl noImageData)
   \<and> (generateContent e i (request options) = Fulfilled response
        \<and> extractImage response = Inl noImageData
       \<longrightarrow> callResult e options i = Rejected noImageData)
   \<and> noImageData = Error ''No image data found in response''"
proof -
  have a: "dataUrl \<lparr>blob_data = Some d, blob_mimeType = Some m\<rparr>
       = ''data:'' @ (if m = [] then ''image/png'' else m) @ '';base64,'' @ d"
    by (simp add: dataUrl_def truthyStr_def)
  have b: "dataUrl \<lparr>blob_data = Some d, blob_mimeType = None\<rparr> = ''data:image/png;base64,'' @ d"
    by (simp add: dataUrl_def truthyStr_def)
  have c: "firstCandidateParts response = Some ps \<and> (\<forall>p\<in>set ps. \<not> hasInlineData p)
       \<longrightarrow> extractImage response = Inl noImageData"
    by (simp add: extractImage_def scanParts_none)
  have d: "noImageData = Error ''No image data found in response''"
    by (simp add: noImageData_def)
  show ?thesis
    using extractImage_find [of response] a b c d single_image_batch [of options e d]
      callResult_no_data [of e i options response]
    by blast
qed

theorem extraction_first_inline_part_witness:
  "snd (generateImages 1 exampleOptions exampleEnv) = Fulfilled [''data:image/png;base64,aGk='']
   \<and> extractImage twoCandidateResponse = Inl noImageData
   \<and> callResult textOnlyEnv exampleOptions 0 = Rejected noImageData"
proof -
  have gate: "usePro exampleOptions \<longrightarrow> snd (ensureApiKey exampleEnv) = Fulfilled ()"
    by (simp add: ensureApiKey_def exampleEnv_def)
  have arr: "0 \<in> set (arrival exampleEnv)"
    by (simp add: exampleEnv_def)
  have resp: "generateContent exampleEnv 0 (request exampleOptions)
                = Fulfilled (inlineResponse ''aGk='' (Some ''image/png''))"
    by (simp add: exampleEnv_def)
  have fc: "firstCandidateParts twoCandidateResponse
              = Some [\<lparr>inlineData = None, part_text = Some ''no image''\<rparr>]"
    by (simp add: firstCandidateParts_def twoCandidateResponse_def)
  have nd: "\<forall>p\<in>set [\<lparr>inlineData = None, part_text = Some ''no image''\<rparr>]. \<not> hasInlineData p"
    by (simp add: hasInlineData_def)
  have tr: "generateContent textOnlyEnv 0 (request exampleOptions) = Fulfilled twoCandidateResponse"
    by (simp add: textOnlyEnv_def)
  note inst1 = extraction_first_inline_part
    [where response = twoCandidateResponse and d = "''aGk=''" and m = "''image/png''"
       and options = exampleOptions and e = exampleEnv
       and ps = "[\<lparr>inlineData = None, part_text = Some ''no image''\<rparr>]" and i = 0]
  note inst2 = extraction_first_inline_part
    [where response = twoCandidateResponse and d = "''aGk=''" and m = "''image/png''"
       and options = exampleOptions and e = textOnlyEnv
       and ps = "[\<lparr>inlineData = None, part_text = Some ''no image''\<rparr>]" and i = 0]
  have one: "snd (generateImages 1 exampleOptions exampleEnv)
               = Fulfilled [''data:image/png;base64,aGk='']"
    using inst1 gate arr resp by simp
  have two: "extractImage twoCandidateResponse = Inl noImageData"
    using inst1 fc nd by simp
  have three: "callResult textOnlyEnv exampleOptions 0 = Rejected noImageData"
    using inst2 tr two by simp
  show ?thesis using one two three by simp
qed

lemma firstCandidateParts_first:
  "firstCandidateParts \<lparr>candidates = Some (c # later)\<rparr>
     = firstCandidateParts \<lparr>candidates = Some [c]\<rparr>"
  by (simp add: firstCandidateParts_def)

text \<open>
  Claim C10. The extraction reads the first candidate only: the candidates
  after it do not change the result. When the first candidate has no part with
  inline data (or no parts, or no content), the result is the no-image-data
  error whatever the later candidates hold; a response with an empty list of
  candidates, or with none, gives the same error. The call is then rejected
  with that error.
\<close>

theorem extraction_reads_first_candidate_only:
  "extractImage \<lparr>candidates = Some (c # later)\<rparr> = extractImage \<lparr>candidates = Some [c]\<rparr>
   \<and> ((\<forall>p\<in>set ps. \<not> hasInlineData p) \<longrightarrow>
        extractImage \<lparr>candidates =
          Some (\<lparr>candidate_content = Some \<lparr>content_parts = Some ps\<rparr>\<rparr> # later)\<rparr>
        = Inl noImageData)
   \<and> extractImage \<lparr>candidates =
        Some (\<lparr>candidate_content = Some \<lparr>content_parts = None\<rparr>\<rparr> # later)\<rparr> = Inl noImageData
   \<and> extractImage \<lparr>candidates = Some (\<lparr>candidate_content = None\<rparr> # later)\<rparr>
       = Inl noImageData
   \<and> extractImage \<lparr>candidates = Some []\<rparr> = Inl noImageData
   \<and> extractImage \<lparr>candidates = None\<rparr> = Inl noImageData
   \<and> (generateContent e i (request options) = Fulfilled response
        \<and> extractImage response = Inl noImageData
       \<longrightarrow> callResult e options i = Rejected noImageData)"
  using callResult_no_data [of e i options response]
  by (simp add: extractImage_def firstCandidateParts_def scanParts_none)

theorem extraction_reads_first_candidate_only_witness:
  "extractImage twoCandidateResponse = Inl noImageData
   \<and> callResult textOnlyEnv exampleOptions 0 = Rejected noImageData"
proof -
  have nd: "\<forall>p\<in>set [\<lparr>inlineData = None, part_text = Some ''no image''\<rparr>]. \<not> hasInlineData p"
    by (simp add: hasInlineData_def)
  have tr: "generateContent textOnlyEnv 0 (request exampleOptions) = Fulfilled twoCandidateResponse"
    by (simp add: textOnlyEnv_def)
  note inst = extraction_reads_first_candidate_only
    [where c = "\<lparr>candidate_content = None\<rparr>"
       and later = "[\<lparr>candidate_content = Some \<lparr>content_parts =
                  Some [\<lparr>inlineData = Some \<lparr>blob_data = Some ''aGk='',
                                                blob_mimeType = Some ''image/png''\<rparr>,
                         part_text = None\<rparr>]\<rparr>\<rparr>]"
       and ps = "[\<lparr>inlineData = None, part_text = Some ''no image''\<rparr>]"
       and e = textOnlyEnv and i = 0 and options = exampleOptions
       and response = twoCandidateResponse]
  have x: "extractImage twoCandidateResponse = Inl noImageData"
    using inst [THEN conjunct2, THEN conjunct1] nd
    by (simp add: twoCandidateResponse_def)
  have y: "callResult textOnlyEnv exampleOptions 0 = Rejected noImageData"
    using inst x tr by blast
  show ?thesis using x y by simp
qed

section \<open>The polling loop of the video driver\<close>

text \<open>
  The loop in general: when the handles \<open>h m\<close>, \<open>h (m + 1)\<close>, ... are incomplete
  up to, and not including, \<open>h (m + n)\<close>, each refresh returning the next one,
  the loop returns the handle \<open>h (m + n)\<close> after exactly \<open>n\<close> rounds.
\<close>

lemma pollLoop_rounds:
  assumes "\<forall>k<n. \<not> isDone (h (m + k))
             \<and> getVideosOperation e (m + k) (h (m + k)) = Fulfilled (h (Suc (m + k)))"
    and "isDone (h (m + n))"
  shows "pollLoop e m (h m) tr =
           Some (tr @ concat (map (\<lambda>k. [SetTimeout 5000, GetVideosOperation (h k)]) [m..<m + n]),
                 Fulfilled (h (m + n)))"
  using assms
proof (induction n arbitrary: m tr)
  case 0
  then show ?case by (subst pollLoop.simps) simp
next
  case (Suc n)
  have first: "\<not> isDone (h m) \<and> getVideosOperation e m (h m) = Fulfilled (h (Suc m))"
    using Suc.prems(1) by (metis add.right_neutral zero_less_Suc)
  have rest: "\<forall>k<n. \<not> isDone (h (Suc m + k))
                \<and> getVideosOperation e (Suc m + k) (h (Suc m + k)) = Fulfilled (h (Suc (Suc m + k)))"
  proof (intro allI impI)
    fix k assume "k < n"
    then have "Suc k < Suc n" by simp
    then show "\<not> isDone (h (Suc m + k))
                \<and> getVideosOperation e (Suc m + k) (h (Suc m + k)) = Fulfilled (h (Suc (Suc m + k)))"
      using Suc.prems(1) by (metis add_Suc_shift)
  qed
  have fin: "isDone (h (Suc m + n))" using Suc.prems(2) by simp
  have "pollLoop e m (h m) tr
          = pollLoop e (Suc m) (h (Suc m)) (tr @ [SetTimeout 5000, GetVideosOperation (h m)])"
    using first by (subst pollLoop.simps) simp
  also have "\<dots> = Some ((tr @ [SetTimeout 5000, GetVideosOperation (h m)])
                 @ concat (map (\<lambda>k. [SetTimeout 5000, GetVideosOperation (h k)]) [Suc m..<Suc m + n]),
               Fulfilled (h (Suc m + n)))"
    by (rule Suc.IH [OF rest fin])
  also have "\<dots> = Some (tr @ concat (map (\<lambda>k. [SetTimeout 5000, GetVideosOperation (h k)]) [m..<m + Suc n]),
                 Fulfilled (h (m + Suc n)))"
  proof -
    have "[m..<m + Suc n] = m # [Suc m..<Suc m + n]"
      using upt_conv_Cons [of m "m + Suc n"] by simp
    then show ?thesis by simp
  qed
  finally show ?case .
qed

text \<open>
  Claim C2. When the handle returned by the submission and the handle returned
  by the first refresh are incomplete (their \<^verbatim>\<open>done\<close> is not \<^verbatim>\<open>true\<close>) and the
  handle returned by the second refresh has \<^verbatim>\<open>done\<close> set and holds, in the
  first generated video of its response, the URI \<open>u\<close>, \<^verbatim>\<open>generateVideo\<close> returns
  after exactly two rounds, each a sleep of 5000 ms followed by a refresh keyed
  by the handle held before it; with the API key \<open>k\<close> the result is \<open>u\<close> followed
  by \<^verbatim>\<open>&key=\<close> and \<open>k\<close>.
\<close>

theorem video_two_poll_cycles:
  assumes "snd (ensureApiKey e) = Fulfilled ()"
    and "generateVideos e (payload options) = Fulfilled h0"
    and "operation_done h0 \<noteq> Some True"
    and "getVideosOperation e 0 h0 = Fulfilled h1"
    and "operation_done h1 \<noteq> Some True"
    and "getVideosOperation e 1 h1 = Fulfilled h2"
    and "operation_done h2 = Some True"
    and "operation_response h2 = Some r"
    and "generatedVideos r = Some (g # gs)"
    and "generated_video g = Some v"
    and "uri v = Some u"
    and "u \<noteq> []"
    and "API_KEY e = Some k"
  shows "generateVideo options e =
           Some (fst (ensureApiKey e)
                   @ [GenerateVideos (payload options),
                      SetTimeout 5000, GetVideosOperation h0,
                      SetTimeout 5000, GetVideosOperation h1],
                 Fulfilled (u @ ''&key='' @ k))"
proof -
  let ?tr = "fst (ensureApiKey e) @ [GenerateVideos (payload options)]"
  have d0: "\<not> isDone h0" using assms(3) by (simp add: isDone_def)
  have d1: "\<not> isDone h1" using assms(5) by (simp add: isDone_def)
  have d2: "isDone h2" using assms(7) by (simp add: isDone_def)
  have vu: "videoUri h2 = Some u"
    using assms(8-11) by (simp add: videoUri_def)
  have key: "templateStr (API_KEY e) = k"
    using assms(13) by (simp add: templateStr_def)
  have l2: "pollLoop e 2 h2 tr = Some (tr, Fulfilled h2)" for tr
    using d2 by (subst pollLoop.simps) simp
  have l1: "pollLoop e 1 h1 tr
              = Some (tr @ [SetTimeout 5000, GetVideosOperation h1], Fulfilled h2)" for tr
    using d1 assms(6) l2 by (subst pollLoop.simps) (simp add: numeral_2_eq_2)
  have l0: "pollLoop e 0 h0 ?tr
              = Some (?tr @ [SetTimeout 5000, GetVideosOperation h0,
                             SetTimeout 5000, GetVideosOperation h1], Fulfilled h2)"
    using d0 assms(4) l1 by (subst pollLoop.simps) simp
  show ?thesis
    using assms(1,2,12) vu key l0
    by (simp add: generateVideo_def Let_def finishVideo_def truthyStr_def)
qed

theorem video_two_poll_cycles_witness:
  "generateVideo exampleVideoOptions exampleEnv =
     Some ([EnsureApiKeyCalled, HasSelectedApiKey, OpenSelectKey, EnsureApiKeyReturned,
            GenerateVideos (payload exampleVideoOptions),
            SetTimeout 5000, GetVideosOperation job0,
            SetTimeout 5000, GetVideosOperation job1],
           Fulfilled ''https://host/v.mp4?alt=media&key=KEY'')"
proof -
  have gate: "snd (ensureApiKey exampleEnv) = Fulfilled ()"
    by (simp add: ensureApiKey_def exampleEnv_def)
  have tr: "fst (ensureApiKey exampleEnv)
              = [EnsureApiKeyCalled, HasSelectedApiKey, OpenSelectKey, EnsureApiKeyReturned]"
    by (simp add: ensureApiKey_def exampleEnv_def)
  have s: "generateVideos exampleEnv (payload exampleVideoOptions) = Fulfilled job0"
    by (simp add: exampleEnv_def)
  have d0: "operation_done job0 \<noteq> Some True" by (simp add: job0_def)
  have p0: "getVideosOperation exampleEnv 0 job0 = Fulfilled job1"
    by (simp add: exampleEnv_def)
  have d1: "operation_done job1 \<noteq> Some True" by (simp add: job1_def)
  have p1: "getVideosOperation exampleEnv 1 job1 = Fulfilled job2"
    by (simp add: exampleEnv_def)
  have d2: "operation_done job2 = Some True" by (simp add: job2_def)
  have r: "operation_response job2 = Some \<lparr>generatedVideos =
             Some [\<lparr>generated_video = Some \<lparr>uri = Some ''https://host/v.mp4?alt=media''\<rparr>\<rparr>]\<rparr>"
    by (simp add: job2_def)
  have g: "generatedVideos \<lparr>generatedVideos =
             Some [\<lparr>generated_video = Some \<lparr>uri = Some ''https://host/v.mp4?alt=media''\<rparr>\<rparr>]\<rparr>
           = Some (\<lparr>generated_video = Some \<lparr>uri = Some ''https://host/v.mp4?alt=media''\<rparr>\<rparr> # [])"
    by simp
  have v: "generated_video \<lparr>generated_video = Some \<lparr>uri = Some ''https://host/v.mp4?alt=media''\<rparr>\<rparr>
           = Some \<lparr>uri = Some ''https://host/v.mp4?alt=media''\<rparr>"
    by simp
  have u: "uri \<lparr>uri = Some ''https://host/v.mp4?alt=media''\<rparr> = Some ''https://host/v.mp4?alt=media''"
    by simp
  have ne: "''https://host/v.mp4?alt=media'' \<noteq> []" by simp
  have k: "API_KEY exampleEnv = Some ''KEY''"
    by (simp add: exampleEnv_def)
  show ?thesis
    using video_two_poll_cycles [OF gate s d0 p0 d1 p1 d2 r g v u ne k] tr by simp
qed

end
